theory Spec2Isabelle
  imports Complex_Main "HOL-Library.Monad_Syntax"
begin

section \<open>JavaScript strings and numbers\<close>

text \<open>
  A JavaScript string is a sequence of UTF-16 code units; \<open>length\<close> is the
  \<^verbatim>\<open>.length\<close> of the source. String literals of the source are written
  \<open>js ''...''\<close>.
\<close>

type_synonym jsstring = "nat list"

definition js :: "string \<Rightarrow> jsstring" where
  "js s = map of_char s"

text \<open>
  The class \<^verbatim>\<open>\s\<close> of a regular expression, which is also the set of code units
  that \<^verbatim>\<open>String.prototype.trim\<close> strips: WhiteSpace and LineTerminator of ECMAScript.
\<close>

definition isSpace :: "nat \<Rightarrow> bool" where
  "isSpace c \<longleftrightarrow>
     c \<in> {9, 10, 11, 12, 13, 32, 160, 5760, 8232, 8233, 8239, 8287, 12288, 65279}
     \<or> (8192 \<le> c \<and> c \<le> 8202)"

definition trim :: "jsstring \<Rightarrow> jsstring" where
  "trim s = rev (dropWhile isSpace (rev (dropWhile isSpace s)))"

text \<open>\<^verbatim>\<open>s.includes(sub)\<close>.\<close>

fun includesSub :: "jsstring \<Rightarrow> jsstring \<Rightarrow> bool" where
  "includesSub [] sub = (sub = [])"
| "includesSub (c # cs) sub = (take (length sub) (c # cs) = sub \<or> includesSub cs sub)"

text \<open>\<^verbatim>\<open>s.split(sep)\<close> for a separator of one code unit.\<close>

fun splitChar :: "nat \<Rightarrow> jsstring \<Rightarrow> jsstring list" where
  "splitChar sep [] = [[]]"
| "splitChar sep (c # cs) =
     (if c = sep then [] # splitChar sep cs
      else (case splitChar sep cs of
              [] \<Rightarrow> [[c]]
            | p # ps \<Rightarrow> (c # p) # ps))"

text \<open>
  \<^verbatim>\<open>s.split(/\s+/)\<close>: the pieces between the maximal runs of white space; \<open>cur\<close> is the
  piece being read, reversed.
\<close>

function splitSpaces :: "jsstring \<Rightarrow> jsstring \<Rightarrow> jsstring list" where
  "splitSpaces cur [] = [rev cur]"
| "splitSpaces cur (c # cs) =
     (if isSpace c then rev cur # splitSpaces [] (dropWhile isSpace cs)
      else splitSpaces (c # cur) cs)"
  by pat_completeness auto
termination
  by (relation "measure (\<lambda>(cur, s). length s)")
     (auto simp: less_Suc_eq_le length_dropWhile_le)

text \<open>\<^verbatim>\<open>text.split(/\s+/).filter(word => word.length > 0).length\<close>\<close>

definition countWords :: "jsstring \<Rightarrow> nat" where
  "countWords text = length (filter (\<lambda>word. length word > 0) (splitSpaces [] text))"

text \<open>Decimal rendering of a number in a template literal.\<close>

fun show_nat :: "nat \<Rightarrow> jsstring" where
  "show_nat n = (if n < 10 then [48 + n] else show_nat (n div 10) @ [48 + n mod 10])"

declare show_nat.simps [simp del]

definition show_int :: "int \<Rightarrow> jsstring" where
  "show_int i = (if i < 0 then 45 # show_nat (nat (- i)) else show_nat (nat i))"

text \<open>
  The result of the JavaScript division \<^verbatim>\<open>a / b\<close> of two array or string lengths.
  A zero divisor gives \<^verbatim>\<open>NaN\<close> (for \<^verbatim>\<open>0 / 0\<close>) or \<^verbatim>\<open>Infinity\<close>; otherwise the
  quotient, kept here as the exact rational (the rounding to a double is left out).
\<close>

datatype jsnum = Num rat | PosInfinity | NaN

definition js_divide :: "nat \<Rightarrow> nat \<Rightarrow> jsnum" where
  "js_divide a b =
     (if b = 0 then (if a = 0 then NaN else PosInfinity)
      else Num (of_nat a / of_nat b))"

text \<open>\<^verbatim>\<open>Math.round\<close> on a rational: the nearest integer, halves going up.\<close>

definition math_round :: "rat \<Rightarrow> int" where
  "math_round x = \<lfloor>x + 1 / 2\<rfloor>"

section \<open>Regular expressions of the text preprocessor\<close>

text \<open>
  Every regular expression of \<^verbatim>\<open>preprocessText\<close> is a sequence of greedy, quantified
  character classes. \<open>Rep c lo hi\<close> is the class \<open>c\<close> repeated at least \<open>lo\<close> and at most
  \<open>hi\<close> times (\<open>None\<close>: unbounded).
\<close>

datatype atom = Rep (cls: "nat \<Rightarrow> bool") (least: nat) (most: "nat option")

definition maxRun :: "atom \<Rightarrow> jsstring \<Rightarrow> nat" where
  "maxRun a s =
     (let k = length (takeWhile (cls a) s)
      in case most a of None \<Rightarrow> k | Some m \<Rightarrow> min m k)"

text \<open>
  Backtracking: \<open>descend f lo n\<close> tries the repetition counts \<open>n\<close>, \<open>n - 1\<close>, ... down
  to \<open>lo\<close> and keeps the first for which the rest of the expression matches.
\<close>

fun descend :: "(nat \<Rightarrow> 'a option) \<Rightarrow> nat \<Rightarrow> nat \<Rightarrow> 'a option" where
  "descend f lo 0 = (if lo = 0 then f 0 else None)"
| "descend f lo (Suc n) =
     (if Suc n < lo then None
      else case f (Suc n) of Some r \<Rightarrow> Some r | None \<Rightarrow> descend f lo n)"

text \<open>
  A match of the expression at the start of \<open>s\<close>: the number of code units each atom
  consumed.
\<close>

fun matchSeq :: "atom list \<Rightarrow> jsstring \<Rightarrow> nat list option" where
  "matchSeq [] s = Some []"
| "matchSeq (a # as) s =
     descend (\<lambda>n. map_option ((#) n) (matchSeq as (drop n s))) (least a) (maxRun a s)"

text \<open>The text consumed by the atoms \<open>i\<close> to \<open>j - 1\<close> of a match at the start of \<open>s\<close>.\<close>

definition group :: "nat \<Rightarrow> nat \<Rightarrow> nat list \<Rightarrow> jsstring \<Rightarrow> jsstring" where
  "group i j ns s =
     take (sum_list (take j ns) - sum_list (take i ns)) (drop (sum_list (take i ns)) s)"

text \<open>
  \<^verbatim>\<open>s.replace(re, replacement)\<close> for a global expression: the loop of the engine over
  the string. Each round looks for a match at the current position; a match is replaced
  and the loop goes on behind it (one code unit further when the match is empty), and
  without a match the code unit is copied. The loop returns \<open>None\<close> when it runs forever.
\<close>

partial_function (option) replaceLoop ::
  "atom list \<Rightarrow> (nat list \<Rightarrow> jsstring \<Rightarrow> jsstring) \<Rightarrow> jsstring \<Rightarrow> jsstring option" where
  "replaceLoop re rep s =
     (case matchSeq re s of
        None \<Rightarrow>
          (case s of
             [] \<Rightarrow> Some []
           | c # cs \<Rightarrow> do { r \<leftarrow> replaceLoop re rep cs; Some (c # r) })
      | Some ns \<Rightarrow>
          (if sum_list ns = 0
           then (case s of
                   [] \<Rightarrow> Some (rep ns s)
                 | c # cs \<Rightarrow> do { r \<leftarrow> replaceLoop re rep cs; Some (rep ns s @ c # r) })
           else do { r \<leftarrow> replaceLoop re rep (drop (sum_list ns) s);
                     Some (rep ns s @ r) }))"

text \<open>The classes \<^verbatim>\<open>[A-Z\u00C0-\u0178]\<close> (U+00C0 to U+0178) and \<^verbatim>\<open>[A-Z\u00C0-\u0178\s]\<close>.\<close>

definition isUpper :: "nat \<Rightarrow> bool" where
  "isUpper c \<longleftrightarrow> (65 \<le> c \<and> c \<le> 90) \<or> (192 \<le> c \<and> c \<le> 376)"

definition isUpperOrSpace :: "nat \<Rightarrow> bool" where
  "isUpperOrSpace c \<longleftrightarrow> isUpper c \<or> isSpace c"

text \<open>\<^verbatim>\<open>/\s+/g\<close>\<close>

definition whitespaceRun :: "atom list" where
  "whitespaceRun = [Rep isSpace 1 None]"

text \<open>\<^verbatim>\<open>/([A-Z\u00C0-\u0178][A-Z\u00C0-\u0178\s]{2,})\s*:/g\<close>; group 1 is the first two atoms.\<close>

definition fieldLabel :: "atom list" where
  "fieldLabel =
     [Rep isUpper 1 (Some 1), Rep isUpperOrSpace 2 None, Rep isSpace 0 None,
      Rep (\<lambda>c. c = 58) 1 (Some 1)]"

text \<open>\<^verbatim>\<open>/([A-Z\u00C0-\u0178]{3,}[A-Z\u00C0-\u0178\s]+[A-Z\u00C0-\u0178]{3,})/g\<close>; group 1 is the whole match.\<close>

definition headerRun :: "atom list" where
  "headerRun = [Rep isUpper 3 None, Rep isUpperOrSpace 1 None, Rep isUpper 3 None]"

text \<open>\<^verbatim>\<open>/\n{3,}/g\<close>\<close>

definition newlineRun :: "atom list" where
  "newlineRun = [Rep (\<lambda>c. c = 10) 3 None]"

section \<open>TextPreprocessor\<close>

text \<open>\<^verbatim>\<open>PreprocessingOptions\<close>: every field is optional (\<open>None\<close>: not given).\<close>

record PreprocessingOptions =
  preserveOriginalStructure :: "bool option"
  addFieldMarkers :: "bool option"
  addHeaderMarkers :: "bool option"
  normalizeWhitespace :: "bool option"

text \<open>The default \<^verbatim>\<open>options = {}\<close>.\<close>

definition noOptions :: PreprocessingOptions where
  "noOptions =
     \<lparr>preserveOriginalStructure = None, addFieldMarkers = None,
      addHeaderMarkers = None, normalizeWhitespace = None\<rparr>"

text \<open>A destructured field with its default.\<close>

definition orDefault :: "'a option \<Rightarrow> 'a \<Rightarrow> 'a" where
  "orDefault v d = (case v of None \<Rightarrow> d | Some x \<Rightarrow> x)"

definition preprocessText :: "jsstring \<Rightarrow> PreprocessingOptions \<Rightarrow> jsstring option" where
  "preprocessText rawText options =
     (let preserveOriginalStructure' = orDefault (preserveOriginalStructure options) False;
          addFieldMarkers' = orDefault (addFieldMarkers options) True;
          addHeaderMarkers' = orDefault (addHeaderMarkers options) True;
          normalizeWhitespace' = orDefault (normalizeWhitespace options) True
      in do {
        cleaned \<leftarrow> (if normalizeWhitespace'
                    then replaceLoop whitespaceRun (\<lambda>ns s. [32]) rawText
                    else Some rawText);
        cleaned \<leftarrow> (if addFieldMarkers'
                    then replaceLoop fieldLabel (\<lambda>ns s. [10] @ group 0 2 ns s @ [58]) cleaned
                    else Some cleaned);
        cleaned \<leftarrow> (if addHeaderMarkers'
                    then replaceLoop headerRun (\<lambda>ns s. [10, 10] @ group 0 3 ns s) cleaned
                    else Some cleaned);
        cleaned \<leftarrow> replaceLoop newlineRun (\<lambda>ns s. [10, 10]) cleaned;
        Some (trim cleaned)
      })"

record PreprocessingStats =
  originalWordCount :: nat
  processedWordCount :: nat
  originalLineCount :: nat
  processedLineCount :: nat
  compressionRatio :: jsnum
  structureImprovement :: jsnum

definition getPreprocessingStats :: "jsstring \<Rightarrow> jsstring \<Rightarrow> PreprocessingStats" where
  "getPreprocessingStats originalText processedText =
     (let originalWords = countWords originalText;
          processedWords = countWords processedText;
          originalLines = length (splitChar 10 originalText);
          processedLines = length (splitChar 10 processedText)
      in \<lparr>originalWordCount = originalWords,
          processedWordCount = processedWords,
          originalLineCount = originalLines,
          processedLineCount = processedLines,
          compressionRatio = js_divide (length processedText) (length originalText),
          structureImprovement = js_divide processedLines originalLines\<rparr>)"

section \<open>Shared types\<close>

text \<open>
  A value that a \<^verbatim>\<open>throw\<close> or a rejected promise carries: an \<^verbatim>\<open>Error\<close> object with its
  \<^verbatim>\<open>name\<close> and \<^verbatim>\<open>message\<close>, or any other value.
\<close>

datatype thrown = ErrorObj (errName: jsstring) (errMessage: jsstring) | OtherValue

text \<open>\<^verbatim>\<open>new Error(message)\<close>\<close>

definition newError :: "jsstring \<Rightarrow> thrown" where
  "newError msg = ErrorObj (js ''Error'') msg"

text \<open>\<^verbatim>\<open>error instanceof Error ? error.message : fallback\<close>\<close>

definition messageOr :: "thrown \<Rightarrow> jsstring \<Rightarrow> jsstring" where
  "messageOr e fallback = (case e of ErrorObj n m \<Rightarrow> m | OtherValue \<Rightarrow> fallback)"

text \<open>
  A \<^verbatim>\<open>File\<close>: its name, declared media type and size, and what reading it gives
  (\<^verbatim>\<open>file.arrayBuffer()\<close>, \<^verbatim>\<open>file.text()\<close>), which may fail.
\<close>

record File =
  file_name :: jsstring
  file_type :: jsstring
  file_size :: nat
  file_arrayBuffer :: "thrown + nat list"
  file_text :: "thrown + jsstring"

record UploadedFile =
  uf_id :: jsstring
  uf_name :: jsstring
  uf_size :: nat
  uf_type :: jsstring
  uf_lastModified :: int
  uf_file :: File

datatype json =
    JNull
  | JBool bool
  | JNumber rat
  | JString jsstring
  | JArray "json list"
  | JObject "(jsstring \<times> json) list"

record TokenizedData =
  tokens :: "json list"
  tokenIds :: json
  tokenCount :: nat
  modelName :: json
  tokenizedAt :: int

record TokenizationConfigType =
  cfgModelName :: jsstring
  azureFunctionUrl :: jsstring
  apiKey :: "jsstring option"

datatype StatusKind = Uploading | Extracting | Completed | Failed

text \<open>\<^verbatim>\<open>ProcessingStatus\<close>; \<open>Failed\<close> is the status \<^verbatim>\<open>'error'\<close>.\<close>

record ProcessingStatus =
  statusId :: jsstring
  status :: StatusKind
  progress :: rat
  message :: jsstring
  error :: "jsstring option"

record ExtractedDocument =
  docId :: jsstring
  fileName :: jsstring
  fileType :: jsstring
  extractedText :: jsstring
  preprocessedText :: jsstring
  tokenizedData :: "TokenizedData option"
  wordCount :: nat
  extractedAt :: int
  preprocessingStats :: PreprocessingStats

section \<open>fileValidation\<close>

definition ALLOWED_FILE_TYPES :: "jsstring list" where
  "ALLOWED_FILE_TYPES =
     [js ''application/pdf'',
      js ''application/vnd.openxmlformats-officedocument.wordprocessingml.document'',
      js ''application/msword'',
      js ''text/plain'']"

definition MAX_FILE_SIZE :: nat where
  "MAX_FILE_SIZE = 50 * 1024 * 1024"

record ValidationResult =
  isValid :: bool
  validationError :: "jsstring option"

definition validateFile :: "File \<Rightarrow> ValidationResult" where
  "validateFile file =
     (if file_type file \<notin> set ALLOWED_FILE_TYPES then
        \<lparr>isValid = False,
         validationError = Some (js ''Unsupported file type. Please upload PDF, Word document (.docx, .doc), or text file.'')\<rparr>
      else if file_size file > MAX_FILE_SIZE then
        (let sizeMB = math_round (of_nat (file_size file) / (1024 * 1024))
         in \<lparr>isValid = False,
             validationError = Some (js ''File too large ('' @ show_int sizeMB
                                     @ js ''MB). Maximum size is 50MB.'')\<rparr>)
      else if file_size file = 0 then
        \<lparr>isValid = False,
         validationError = Some (js ''File is empty. Please upload a valid document.'')\<rparr>
      else \<lparr>isValid = True, validationError = None\<rparr>)"

section \<open>TokenizationService\<close>

text \<open>The two variables of \<^verbatim>\<open>import.meta.env\<close> that the constructor reads.\<close>

record ImportMetaEnv =
  VITE_AZURE_TOKENIZER_URL :: "jsstring option"
  VITE_AZURE_TOKENIZER_KEY :: "jsstring option"

definition defaultFunctionUrl :: jsstring where
  "defaultFunctionUrl = js ''https://ocp10-tokenizer-function.azurewebsites.net/api/tokenizerfunction''"

definition placeholderUrl :: jsstring where
  "placeholderUrl = js ''https://your-function-app.azurewebsites.net/api/tokenize''"

text \<open>\<^verbatim>\<open>value || fallback\<close> on an optional string: the empty string is falsy.\<close>

definition orElse :: "jsstring option \<Rightarrow> jsstring \<Rightarrow> jsstring" where
  "orElse v fallback = (case v of None \<Rightarrow> fallback | Some x \<Rightarrow> if x = [] then fallback else x)"

definition constructor :: "ImportMetaEnv \<Rightarrow> TokenizationConfigType" where
  "constructor env =
     (let config = \<lparr>cfgModelName = js ''gpt-oss-120b'',
                    azureFunctionUrl = orElse (VITE_AZURE_TOKENIZER_URL env) defaultFunctionUrl,
                    apiKey = VITE_AZURE_TOKENIZER_KEY env\<rparr>
      in if azureFunctionUrl config = [] \<or> azureFunctionUrl config = placeholderUrl
         then config\<lparr>azureFunctionUrl := defaultFunctionUrl\<rparr>
         else config)"

text \<open>
  \<^verbatim>\<open>Partial<TokenizationConfigType>\<close>: \<open>None\<close> is a key that the object does not have.
\<close>

record PartialConfig =
  partModelName :: "jsstring option"
  partAzureFunctionUrl :: "jsstring option"
  partApiKey :: "jsstring option option"

definition updateConfig :: "TokenizationConfigType \<Rightarrow> PartialConfig \<Rightarrow> TokenizationConfigType" where
  "updateConfig this config =
     \<lparr>cfgModelName = orDefault (partModelName config) (cfgModelName this),
      azureFunctionUrl = orDefault (partAzureFunctionUrl config) (azureFunctionUrl this),
      apiKey = orDefault (partApiKey config) (apiKey this)\<rparr>"

text \<open>The request that \<^verbatim>\<open>fetch\<close> sends, and the response it resolves to.\<close>

record Request =
  req_url :: jsstring
  req_authorization :: "jsstring option"
  req_text :: jsstring
  req_model_name :: jsstring

record Response =
  resp_status :: nat
  resp_statusText :: jsstring
  resp_text :: "thrown + jsstring"
  resp_json :: "thrown + json"

text \<open>\<^verbatim>\<open>response.ok\<close>: the status is in the range 200 to 299.\<close>

definition ok :: "Response \<Rightarrow> bool" where
  "ok response \<longleftrightarrow> 200 \<le> resp_status response \<and> resp_status response \<le> 299"

text \<open>
  Reading a property that no prototype defines (\<^verbatim>\<open>tokens\<close>, \<^verbatim>\<open>token_ids\<close>,
  \<^verbatim>\<open>model\<close>) from a parsed JSON value: \<open>None\<close> is \<^verbatim>\<open>undefined\<close>, and reading from
  \<^verbatim>\<open>null\<close> throws a \<^verbatim>\<open>TypeError\<close> (with the message that V8 gives it).
\<close>

definition nullPropertyError :: "jsstring \<Rightarrow> thrown" where
  "nullPropertyError key =
     ErrorObj (js ''TypeError'')
       (js ''Cannot read properties of null (reading '' @ [39] @ key @ [39] @ js '')'')"

definition getProp :: "json \<Rightarrow> jsstring \<Rightarrow> thrown + json option" where
  "getProp v key =
     (case v of
        JNull \<Rightarrow> Inl (nullPropertyError key)
      | JObject kvs \<Rightarrow> Inr (map_of kvs key)
      | _ \<Rightarrow> Inr None)"

text \<open>Whether a value counts as true in \<^verbatim>\<open>!v\<close> and \<^verbatim>\<open>v || w\<close>.\<close>

definition truthy :: "json option \<Rightarrow> bool" where
  "truthy v =
     (case v of
        None \<Rightarrow> False
      | Some JNull \<Rightarrow> False
      | Some (JBool b) \<Rightarrow> b
      | Some (JNumber n) \<Rightarrow> n \<noteq> 0
      | Some (JString s) \<Rightarrow> s \<noteq> []
      | Some (JArray xs) \<Rightarrow> True
      | Some (JObject kvs) \<Rightarrow> True)"

text \<open>\<^verbatim>\<open>v || w\<close> on a value read from the response.\<close>

definition orJson :: "json option \<Rightarrow> json \<Rightarrow> json" where
  "orJson v w = (case v of None \<Rightarrow> w | Some x \<Rightarrow> if truthy (Some x) then x else w)"

text \<open>What \<^verbatim>\<open>tokenizeText\<close> does that its caller can see, in order.\<close>

datatype tok_event =
    TokProgress rat jsstring
  | TokFetch Request
  | TokConsoleError

definition notConfiguredMessage :: jsstring where
  "notConfiguredMessage =
     js ''Azure Function URL not configured. Please configure the tokenizer in the header ''
     @ [34] @ js ''Tokenizer Config'' @ [34] @ js '' section.''"

definition invalidResponseMessage :: jsstring where
  "invalidResponseMessage = js ''Invalid response format: missing tokens array''"

text \<open>The body of the \<^verbatim>\<open>try\<close> block, from \<^verbatim>\<open>fetch\<close> on.\<close>

definition tokenizeRequest :: "TokenizationConfigType \<Rightarrow> jsstring \<Rightarrow> Request" where
  "tokenizeRequest config text =
     \<lparr>req_url = azureFunctionUrl config,
      req_authorization =
        (case apiKey config of
           None \<Rightarrow> None
         | Some k \<Rightarrow> if k = [] then None else Some (js ''Bearer '' @ k)),
      req_text = text,
      req_model_name = cfgModelName config\<rparr>"

definition tokenizeResponse ::
  "TokenizationConfigType \<Rightarrow> int \<Rightarrow> Response \<Rightarrow> tok_event list \<times> (thrown + TokenizedData)" where
  "tokenizeResponse config now response =
     (if \<not> ok response then
        (case resp_text response of
           Inl e \<Rightarrow> ([], Inl e)
         | Inr errorText \<Rightarrow>
             ([], Inl (newError (js ''Tokenization failed: '' @ show_nat (resp_status response)
                                 @ js '' '' @ resp_statusText response @ js ''. '' @ errorText))))
      else
        (case resp_json response of
           Inl e \<Rightarrow> ([], Inl e)
         | Inr result \<Rightarrow>
             (case getProp result (js ''tokens'') of
                Inl e \<Rightarrow> ([TokProgress 90 (js ''Finalizing tokenization...'')], Inl e)
              | Inr resultTokens \<Rightarrow>
                  (case resultTokens of
                     Some (JArray toks) \<Rightarrow>
                       (case (getProp result (js ''token_ids''), getProp result (js ''model'')) of
                          (Inr token_ids, Inr model) \<Rightarrow>
                            (let tokenized =
                                   \<lparr>tokens = toks,
                                    tokenIds = orJson token_ids (JArray []),
                                    tokenCount = length toks,
                                    modelName = orJson model (JString (cfgModelName config)),
                                    tokenizedAt = now\<rparr>
                             in ([TokProgress 90 (js ''Finalizing tokenization...''),
                                  TokProgress 100 (js ''Tokenization completed. ''
                                     @ show_nat (tokenCount tokenized) @ js '' tokens generated.'')],
                                 Inr tokenized))
                        | (Inl e, _) \<Rightarrow> ([TokProgress 90 (js ''Finalizing tokenization...'')], Inl e)
                        | (_, Inl e) \<Rightarrow> ([TokProgress 90 (js ''Finalizing tokenization...'')], Inl e))
                   | _ \<Rightarrow> ([TokProgress 90 (js ''Finalizing tokenization...'')],
                           Inl (newError invalidResponseMessage))))))"

text \<open>The \<^verbatim>\<open>catch\<close> clause: what it throws for the value it caught.\<close>

definition tokenizeCatch :: "thrown \<Rightarrow> thrown" where
  "tokenizeCatch e =
     (case e of
        ErrorObj n m \<Rightarrow>
          if n = js ''AbortError'' then
            newError (js ''Request timed out. The Azure Function may be slow to respond or unavailable.'')
          else if includesSub m (js ''Failed to fetch'') \<or> includesSub m (js ''NetworkError'') then
            newError (js ''Cannot connect to Azure Function. Please check:'' @ [10]
                      @ js ''1. Azure Function URL is correct'' @ [10]
                      @ js ''2. Function is running and publicly accessible'' @ [10]
                      @ js ''3. No CORS restrictions'' @ [10]
                      @ js ''4. Your internet connection'')
          else if includesSub m (js ''CORS'') then
            newError (js ''CORS error: The Azure Function needs to allow requests from this domain.'')
          else e
      | OtherValue \<Rightarrow> newError (js ''Unknown tokenization error occurred''))"

text \<open>
  \<^verbatim>\<open>tokenizeText\<close>, given the configuration of the service, what \<^verbatim>\<open>fetch\<close> answers to a
  request, and the time that \<^verbatim>\<open>new Date()\<close> reads.
\<close>

definition tokenizeText ::
  "TokenizationConfigType \<Rightarrow> (Request \<Rightarrow> thrown + Response) \<Rightarrow> int \<Rightarrow> jsstring
     \<Rightarrow> tok_event list \<times> (thrown + TokenizedData)" where
  "tokenizeText config fetch now text =
     (if azureFunctionUrl config = [] \<or> trim (azureFunctionUrl config) = [] then
        ([], Inl (newError notConfiguredMessage))
      else
        (let request = tokenizeRequest config text;
             (events, outcome) =
               (case fetch request of
                  Inl e \<Rightarrow> ([], Inl e)
                | Inr response \<Rightarrow>
                    (let (evs, r) = tokenizeResponse config now response
                     in (TokProgress 70 (js ''Processing tokenization response...'') # evs, r)));
             before = [TokProgress 10 (js ''Connecting to tokenization service...''),
                       TokProgress 30 (js ''Sending text for tokenization...''),
                       TokFetch request]
         in (case outcome of
               Inl e \<Rightarrow> (before @ events @ [TokConsoleError], Inl (tokenizeCatch e))
             | Inr tokenized \<Rightarrow> (before @ events, Inr tokenized))))"

section \<open>DocumentExtractor\<close>

text \<open>
  What the libraries and the network answer: \<^verbatim>\<open>getDocument\<close> of pdf.js, the dynamic
  import of mammoth and its \<^verbatim>\<open>extractRawText\<close>, and \<^verbatim>\<open>fetch\<close>.
\<close>

record PdfDocument =
  numPages :: nat
  pageItems :: "nat \<Rightarrow> thrown + jsstring list"

record MammothResult =
  mammoth_value :: jsstring
  mammoth_messages :: "jsstring list"

record Env =
  getDocument :: "nat list \<Rightarrow> thrown + PdfDocument"
  importMammoth :: "thrown option"
  extractRawText :: "nat list \<Rightarrow> thrown + MammothResult"
  fetch :: "Request \<Rightarrow> thrown + Response"

text \<open>The times that the clock reads during one call of \<^verbatim>\<open>extractText\<close>, in order.\<close>

record Clock =
  startTime :: int
  finishTime :: int
  tokenizedAtTime :: int
  extractedAtTime :: int

text \<open>
  What an extraction does that its caller or the outside can see, in order: the calls of
  \<^verbatim>\<open>onProgress\<close>, the reads of the file, the calls of the libraries and of the network,
  and the console output.
\<close>

datatype event =
    Status ProcessingStatus
  | ReadArrayBuffer
  | ReadText
  | GetDocument
  | GetPage nat
  | ImportMammoth
  | ExtractRawText
  | Fetch Request
  | ConsoleError
  | ConsoleWarn

definition extracting :: "File \<Rightarrow> rat \<Rightarrow> jsstring \<Rightarrow> event" where
  "extracting file p msg =
     Status \<lparr>statusId = file_name file, status = Extracting, progress = p,
             message = msg, error = None\<rparr>"

text \<open>\<^verbatim>\<open>items.join(sep)\<close>\<close>

fun joinWith :: "jsstring \<Rightarrow> jsstring list \<Rightarrow> jsstring" where
  "joinWith sep [] = []"
| "joinWith sep [x] = x"
| "joinWith sep (x # y # ys) = x @ sep @ joinWith sep (y # ys)"

definition pageProgress :: "nat \<Rightarrow> nat \<Rightarrow> rat" where
  "pageProgress pageNum totalPages =
     of_int (math_round ((of_nat pageNum / of_nat totalPages) * 80)) + 10"

text \<open>The \<^verbatim>\<open>for\<close> loop of \<^verbatim>\<open>extractFromPDF\<close>, from page \<open>pageNum\<close> on.\<close>

function pdfPageLoop ::
  "File \<Rightarrow> PdfDocument \<Rightarrow> nat \<Rightarrow> jsstring \<Rightarrow> event list \<times> (thrown + jsstring)" where
  "pdfPageLoop file pdf pageNum fullText =
     (if pageNum \<le> numPages pdf then
        (let announce = extracting file (pageProgress pageNum (numPages pdf))
               (js ''Extracting text from page '' @ show_nat pageNum @ js '' of ''
                @ show_nat (numPages pdf) @ js ''...'')
         in case pageItems pdf pageNum of
              Inl e \<Rightarrow> ([announce, GetPage pageNum], Inl e)
            | Inr items \<Rightarrow>
                (let pageText = joinWith [32] items;
                     (evs, r) = pdfPageLoop file pdf (pageNum + 1) (fullText @ pageText @ [10, 10])
                 in (announce # GetPage pageNum # evs, r)))
      else ([], Inr fullText))"
  by pat_completeness auto
termination
  by (relation "measure (\<lambda>(file, pdf, pageNum, fullText). Suc (numPages pdf) - pageNum)") auto

declare pdfPageLoop.simps [simp del]



definition extractFromPDF :: "Env \<Rightarrow> File \<Rightarrow> event list \<times> (thrown + jsstring)" where
  "extractFromPDF env file =
     (let (evs, r) =
            (case file_arrayBuffer file of
               Inl e \<Rightarrow> ([ReadArrayBuffer], Inl e)
             | Inr arrayBuffer \<Rightarrow>
                 (case getDocument env arrayBuffer of
                    Inl e \<Rightarrow> ([ReadArrayBuffer, GetDocument], Inl e)
                  | Inr pdf \<Rightarrow>
                      (let (evs, r) = pdfPageLoop file pdf 1 []
                       in ([ReadArrayBuffer, GetDocument] @ evs, r))));
          loading = extracting file 10 (js ''Loading PDF document...'')
      in case r of
           Inl e \<Rightarrow>
             (loading # evs @ [ConsoleError],
              Inl (newError (js ''Failed to extract text from PDF. Please ensure the file is not corrupted.'')))
         | Inr fullText \<Rightarrow> (loading # evs, Inr (trim fullText)))"

definition extractFromDocx :: "Env \<Rightarrow> File \<Rightarrow> event list \<times> (thrown + jsstring)" where
  "extractFromDocx env file =
     (let (evs, r) =
            (case importMammoth env of
               Some e \<Rightarrow> ([ImportMammoth], Inl e)
             | None \<Rightarrow>
                 (case file_arrayBuffer file of
                    Inl e \<Rightarrow> ([ImportMammoth, ReadArrayBuffer], Inl e)
                  | Inr arrayBuffer \<Rightarrow>
                      (let before = [ImportMammoth, ReadArrayBuffer,
                                     extracting file 60 (js ''Extracting text content...''),
                                     ExtractRawText]
                       in case extractRawText env arrayBuffer of
                            Inl e \<Rightarrow> (before, Inl e)
                          | Inr result \<Rightarrow>
                              (before @ (if length (mammoth_messages result) > 0
                                         then [ConsoleWarn] else []),
                               Inr (mammoth_value result)))));
          reading = extracting file 20 (js ''Reading Word document...'')
      in case r of
           Inl e \<Rightarrow>
             (reading # evs @ [ConsoleError],
              Inl (newError (js ''Failed to extract text from Word document. Please ensure the file is not corrupted.'')))
         | Inr text \<Rightarrow> (reading # evs, Inr text))"

definition extractFromText :: "Env \<Rightarrow> File \<Rightarrow> event list \<times> (thrown + jsstring)" where
  "extractFromText env file =
     (let reading = extracting file 50 (js ''Reading text file...'')
      in case file_text file of
           Inl e \<Rightarrow> ([reading, ReadText, ConsoleError], Inl (newError (js ''Failed to read text file.'')))
         | Inr text \<Rightarrow> ([reading, ReadText], Inr text))"

text \<open>The \<^verbatim>\<open>switch (file.type)\<close> of \<^verbatim>\<open>extractText\<close>.\<close>

definition extractByType :: "Env \<Rightarrow> File \<Rightarrow> event list \<times> (thrown + jsstring)" where
  "extractByType env file =
     (if file_type file = js ''application/pdf'' then extractFromPDF env file
      else if file_type file
                = js ''application/vnd.openxmlformats-officedocument.wordprocessingml.document''
      then extractFromDocx env file
      else if file_type file = js ''application/msword''
      then ([], Inl (newError (js ''Legacy .doc files are not supported. Please convert to .docx format.'')))
      else if file_type file = js ''text/plain'' then extractFromText env file
      else ([], Inl (newError (js ''Unsupported file type: '' @ file_type file))))"

text \<open>The progress callback that \<^verbatim>\<open>extractText\<close> hands to the tokenizer.\<close>

definition tokenizerEvent :: "File \<Rightarrow> tok_event \<Rightarrow> event" where
  "tokenizerEvent file ev =
     (case ev of
        TokProgress p msg \<Rightarrow> extracting file (96 + p * (3 / 100)) (js ''Tokenization: '' @ msg)
      | TokFetch request \<Rightarrow> Fetch request
      | TokConsoleError \<Rightarrow> ConsoleError)"

text \<open>
  \<^verbatim>\<open>extractText\<close>, for the configuration \<open>config\<close> of the tokenization service. The result
  is \<open>None\<close> when the call never returns, and else the events and either the document or
  the value thrown.
\<close>

definition extractText ::
  "Env \<Rightarrow> TokenizationConfigType \<Rightarrow> Clock \<Rightarrow> File
     \<Rightarrow> (event list \<times> (thrown + ExtractedDocument)) option" where
  "extractText env config clock file =
     (let starting = extracting file 5 (js ''Starting text extraction...'');
          (evs, r) = extractByType env file
      in case r of
           Inl e \<Rightarrow>
             Some (starting # evs @
                     [Status \<lparr>statusId = file_name file, status = Failed, progress = 0,
                              message = js ''Extraction failed'',
                              error = Some (messageOr e (js ''Unknown extraction error''))\<rparr>],
                   Inl e)
         | Inr text \<Rightarrow>
             do {
               let words = countWords text;
               let processingTime = finishTime clock - startTime clock;
               preprocessed \<leftarrow> preprocessText text noOptions;
               let stats = getPreprocessingStats text preprocessed;
               let (tokEvents, tokResult) =
                     tokenizeText config (fetch env) (tokenizedAtTime clock) preprocessed;
               let (tokenized, caught) =
                     (case tokResult of
                        Inr d \<Rightarrow> (Some d, [])
                      | Inl tokenError \<Rightarrow>
                          (None,
                           [ConsoleWarn,
                            extracting file 99 (js ''Tokenization unavailable, finalizing extraction...'')]));
               let result =
                     \<lparr>docId = file_name file @ js ''-'' @ show_int (startTime clock),
                      fileName = file_name file,
                      fileType = file_type file,
                      extractedText = text,
                      preprocessedText = preprocessed,
                      tokenizedData = tokenized,
                      wordCount = words,
                      extractedAt = extractedAtTime clock,
                      preprocessingStats = stats\<rparr>;
               Some (starting # evs @
                       [extracting file 95 (js ''Finalizing extraction...''),
                        extracting file 96 (js ''Tokenizing text...'')]
                       @ map (tokenizerEvent file) tokEvents @ caught @
                       [Status \<lparr>statusId = file_name file, status = Completed, progress = 100,
                                message = js ''Extraction completed in ''
                                  @ show_int (math_round (of_int processingTime / 1000))
                                  @ js ''s. '' @ show_nat words @ js '' words extracted.'',
                                error = None\<rparr>],
                     Inr result)
             })"

section \<open>App\<close>

record AppState =
  uploadedFiles :: "UploadedFile list"
  processingStatuses :: "ProcessingStatus list"
  extractedDocuments :: "ExtractedDocument list"
  isProcessing :: bool

definition updateProcessingStatus ::
  "ProcessingStatus \<Rightarrow> ProcessingStatus list \<Rightarrow> ProcessingStatus list" where
  "updateProcessingStatus st prev =
     (case find (\<lambda>s. statusId s = statusId st) prev of
        Some existing \<Rightarrow> map (\<lambda>s. if statusId s = statusId st then st else s) prev
      | None \<Rightarrow> prev @ [st])"

text \<open>The calls of \<^verbatim>\<open>onProgress\<close> among the events of an extraction.\<close>

fun statusesOf :: "event list \<Rightarrow> ProcessingStatus list" where
  "statusesOf [] = []"
| "statusesOf (Status st # evs) = st # statusesOf evs"
| "statusesOf (ev # evs) = statusesOf evs"

text \<open>
  The state of the \<^verbatim>\<open>for\<close> loop of \<^verbatim>\<open>processDocuments\<close>: the documents collected, the
  status list, and the files that \<^verbatim>\<open>extractText\<close> was called on, in order.
\<close>

record LoopState =
  newDocuments :: "ExtractedDocument list"
  statuses :: "ProcessingStatus list"
  extractCalls :: "File list"

text \<open>\<^verbatim>\<open>extractedDocuments.find(doc => ...)\<close> for an uploaded file.\<close>

definition alreadyProcessed :: "ExtractedDocument list \<Rightarrow> UploadedFile \<Rightarrow> ExtractedDocument option" where
  "alreadyProcessed docs uploadedFile =
     find (\<lambda>doc. fileName doc = uf_name uploadedFile \<and> fileType doc = uf_type uploadedFile) docs"

text \<open>
  \<open>extract k file\<close> is what the call number \<open>k\<close> of \<^verbatim>\<open>extractor.extractText\<close> does on
  \<open>file\<close>; \<open>docs\<close> is the \<^verbatim>\<open>extractedDocuments\<close> that the callback closed over.
\<close>

fun processLoop ::
  "(nat \<Rightarrow> File \<Rightarrow> (event list \<times> (thrown + ExtractedDocument)) option)
     \<Rightarrow> ExtractedDocument list \<Rightarrow> UploadedFile list \<Rightarrow> LoopState \<Rightarrow> LoopState option" where
  "processLoop extract docs [] st = Some st"
| "processLoop extract docs (uploadedFile # rest) st =
     (case alreadyProcessed docs uploadedFile of
        Some found \<Rightarrow>
          processLoop extract docs rest (st\<lparr>newDocuments := newDocuments st @ [found]\<rparr>)
      | None \<Rightarrow>
          (case extract (length (extractCalls st)) (uf_file uploadedFile) of
             None \<Rightarrow> None
           | Some (evs, r) \<Rightarrow>
               (let called = st\<lparr>extractCalls := extractCalls st @ [uf_file uploadedFile],
                                statuses := fold updateProcessingStatus (statusesOf evs) (statuses st)\<rparr>
                in case r of
                     Inr extractedDoc \<Rightarrow>
                       processLoop extract docs rest
                         (called\<lparr>newDocuments := newDocuments called @ [extractedDoc]\<rparr>)
                   | Inl e \<Rightarrow>
                       processLoop extract docs rest
                         (called\<lparr>statuses :=
                            updateProcessingStatus
                              \<lparr>statusId = uf_name uploadedFile, status = Failed, progress = 0,
                               message = js ''Processing failed'',
                               error = Some (messageOr e (js ''Unknown error''))\<rparr>
                              (statuses called)\<rparr>))))"

text \<open>
  \<^verbatim>\<open>processDocuments\<close>: the new state of the component, and the files that
  \<^verbatim>\<open>extractText\<close> was called on.
\<close>

definition processDocuments ::
  "(nat \<Rightarrow> File \<Rightarrow> (event list \<times> (thrown + ExtractedDocument)) option)
     \<Rightarrow> AppState \<Rightarrow> UploadedFile list \<Rightarrow> (AppState \<times> File list) option" where
  "processDocuments extract app files =
     (if length files = 0 then
        Some (app\<lparr>processingStatuses := [], extractedDocuments := []\<rparr>, [])
      else
        (case processLoop extract (extractedDocuments app) files
                \<lparr>newDocuments = [], statuses = processingStatuses app, extractCalls = []\<rparr> of
           None \<Rightarrow> None
         | Some st \<Rightarrow>
             Some (app\<lparr>processingStatuses := statuses st,
                       extractedDocuments := newDocuments st,
                       isProcessing := False\<rparr>,
                   extractCalls st)))"

text \<open>\<^verbatim>\<open>handleFilesSelected\<close>\<close>

definition handleFilesSelected ::
  "(nat \<Rightarrow> File \<Rightarrow> (event list \<times> (thrown + ExtractedDocument)) option)
     \<Rightarrow> AppState \<Rightarrow> UploadedFile list \<Rightarrow> (AppState \<times> File list) option" where
  "handleFilesSelected extract app files =
     processDocuments extract (app\<lparr>uploadedFiles := files\<rparr>) files"

section \<open>Sample inputs\<close>

text \<open>
  Concrete inputs on which the properties below are evaluated: a configuration, the clock
  readings of one extraction, a PDF of two pages, an environment whose network is down,
  and one file of each kind.
\<close>

definition sampleConfig :: TokenizationConfigType where
  "sampleConfig = \<lparr>cfgModelName = js ''gpt2'', azureFunctionUrl = js ''https://t'', apiKey = None\<rparr>"

definition sampleClock :: Clock where
  "sampleClock = \<lparr>startTime = 1000, finishTime = 2600, tokenizedAtTime = 2700, extractedAtTime = 2800\<rparr>"

definition samplePdf :: PdfDocument where
  "samplePdf = \<lparr>numPages = 2,
                 pageItems = (\<lambda>pageNum. if pageNum = 1 then Inr [js ''A'', js ''b''] else Inr [js ''c''])\<rparr>"

definition offlineEnv :: Env where
  "offlineEnv =
     \<lparr>getDocument = (\<lambda>data. Inr samplePdf),
      importMammoth = None,
      extractRawText = (\<lambda>data. Inr \<lparr>mammoth_value = js ''Hi'', mammoth_messages = []\<rparr>),
      fetch = (\<lambda>request. Inl (ErrorObj (js ''TypeError'') (js ''Failed to fetch'')))\<rparr>"

definition textFile :: File where
  "textFile = \<lparr>file_name = js ''n.txt'', file_type = js ''text/plain'', file_size = 4,
                file_arrayBuffer = Inr [65, 32, 32, 66], file_text = Inr (js ''A  B'')\<rparr>"


definition docFile :: File where
  "docFile = \<lparr>file_name = js ''a.doc'', file_type = js ''application/msword'', file_size = 1,
               file_arrayBuffer = Inr [208], file_text = Inr [208]\<rparr>"

text \<open>Uploads of these files, a document extracted earlier, and a state of the component.\<close>

definition textUpload :: UploadedFile where
  "textUpload = \<lparr>uf_id = js ''n.txt-1-0'', uf_name = js ''n.txt'', uf_size = 4,
                  uf_type = js ''text/plain'', uf_lastModified = 0, uf_file = textFile\<rparr>"

definition docUpload :: UploadedFile where
  "docUpload = \<lparr>uf_id = js ''a.doc-1-1'', uf_name = js ''a.doc'', uf_size = 1,
                 uf_type = js ''application/msword'', uf_lastModified = 0, uf_file = docFile\<rparr>"

definition earlierDocument :: ExtractedDocument where
  "earlierDocument =
     \<lparr>docId = js ''n.txt-1'', fileName = js ''n.txt'', fileType = js ''text/plain'',
      extractedText = js ''A  B'', preprocessedText = js ''A B'', tokenizedData = None,
      wordCount = 2, extractedAt = 5,
      preprocessingStats = getPreprocessingStats (js ''A  B'') (js ''A B'')\<rparr>"

definition emptyApp :: AppState where
  "emptyApp = \<lparr>uploadedFiles = [], processingStatuses = [], extractedDocuments = [],
                isProcessing = False\<rparr>"

definition earlierApp :: AppState where
  "earlierApp = emptyApp\<lparr>extractedDocuments := [earlierDocument]\<rparr>"

text \<open>An extractor whose every call runs in the sample environment.\<close>

definition sampleExtract ::
  "nat \<Rightarrow> File \<Rightarrow> (event list \<times> (thrown + ExtractedDocument)) option" where
  "sampleExtract k = extractText offlineEnv sampleConfig sampleClock"

text \<open>Parsed bodies of a response, and a response with status 200 and a given body.\<close>

definition goodBody :: json where
  "goodBody =
     JObject [(js ''tokens'', JArray [JString (js ''a''), JString (js ''b'')]),
              (js ''token_ids'', JArray [JNumber 1, JNumber 2])]"

definition noTokensBody :: json where
  "noTokensBody = JObject [(js ''count'', JNumber 0)]"

definition zeroIdsBody :: json where
  "zeroIdsBody = JObject [(js ''tokens'', JArray [JString (js ''a'')]), (js ''token_ids'', JNumber 0)]"


definition okResponse :: "json \<Rightarrow> Response" where
  "okResponse body =
     \<lparr>resp_status = 200, resp_statusText = js ''OK'', resp_text = Inr [], resp_json = Inr body\<rparr>"

section \<open>Properties of the text preprocessor\<close>

lemma descend_Some:
  "descend f lo k = Some r \<Longrightarrow> \<exists>n\<le>k. lo \<le> n \<and> f n = Some r"
proof (induction k)
  case 0
  then show ?case by (simp split: if_splits)
next
  case (Suc k)
  show ?case
  proof (cases "f (Suc k)")
    case None
    with Suc.prems have "descend f lo k = Some r"
      by (simp split: if_splits)
    from Suc.IH [OF this] show ?thesis
      by (meson le_Suc_eq)
  next
    case (Some r')
    with Suc.prems have "r' = r" "lo \<le> Suc k"
      by (simp_all split: if_splits)
    with Some show ?thesis by blast
  qed
qed

lemma maxRun_le: "maxRun a s \<le> length s"
proof -
  have "length (takeWhile (cls a) s) \<le> length s"
    by (rule length_takeWhile_le)
  then show ?thesis
    by (auto simp: maxRun_def Let_def min_def split: option.splits)
qed

lemma matchSeq_consumes:
  "matchSeq re s = Some ns \<Longrightarrow> sum_list ns \<le> length s"
proof (induction re arbitrary: s ns)
  case Nil
  then show ?case by simp
next
  case (Cons a re)
  from Cons.prems obtain n where n: "n \<le> maxRun a s"
    and m: "map_option ((#) n) (matchSeq re (drop n s)) = Some ns"
    using descend_Some by fastforce
  from m obtain ms where ms: "matchSeq re (drop n s) = Some ms" and ns: "ns = n # ms"
    by auto
  from Cons.IH [OF ms] have "sum_list ms \<le> length s - n" by simp
  moreover from n maxRun_le [of a s] have "n \<le> length s" by simp
  ultimately show ?case using ns by simp
qed

lemma replaceLoop_returns: "\<exists>out. replaceLoop re rep s = Some out"
proof (induction "length s" arbitrary: s rule: less_induct)
  case less
  show ?case
  proof (cases "matchSeq re s")
    case None
    show ?thesis
    proof (cases s)
      case Nil
      with None show ?thesis by (subst replaceLoop.simps) simp
    next
      case (Cons c cs)
      then obtain r where "replaceLoop re rep cs = Some r"
        using less [of cs] by auto
      with None Cons show ?thesis by (subst replaceLoop.simps) simp
    qed
  next
    case (Some ns)
    show ?thesis
    proof (cases "sum_list ns = 0")
      case True
      show ?thesis
      proof (cases s)
        case Nil
        with Some True show ?thesis by (subst replaceLoop.simps) simp
      next
        case (Cons c cs)
        then obtain r where "replaceLoop re rep cs = Some r"
          using less [of cs] by auto
        with Some True Cons show ?thesis by (subst replaceLoop.simps) simp
      qed
    next
      case False
      from False have pos: "0 < sum_list ns" by arith
      have "length (drop (sum_list ns) s) = length s - sum_list ns"
        by (rule length_drop)
      with matchSeq_consumes [OF Some] pos have "length (drop (sum_list ns) s) < length s"
        by arith
      then obtain r where "replaceLoop re rep (drop (sum_list ns) s) = Some r"
        using less [of "drop (sum_list ns) s"] by auto
      with Some False show ?thesis by (subst replaceLoop.simps) auto
    qed
  qed
qed

lemma preprocessText_returns: "\<exists>out. preprocessText rawText options = Some out"
proof -
  obtain c1 where c1:
    "(if orDefault (normalizeWhitespace options) True
      then replaceLoop whitespaceRun (\<lambda>ns s. [32]) rawText
      else Some rawText) = Some c1"
    using replaceLoop_returns [of whitespaceRun _ rawText] by (cases "orDefault (normalizeWhitespace options) True") auto
  obtain c2 where c2:
    "(if orDefault (addFieldMarkers options) True
      then replaceLoop fieldLabel (\<lambda>ns s. [10] @ group 0 2 ns s @ [58]) c1
      else Some c1) = Some c2"
    using replaceLoop_returns [of fieldLabel _ c1] by (cases "orDefault (addFieldMarkers options) True") auto
  obtain c3 where c3:
    "(if orDefault (addHeaderMarkers options) True
      then replaceLoop headerRun (\<lambda>ns s. [10, 10] @ group 0 3 ns s) c2
      else Some c2) = Some c3"
    using replaceLoop_returns [of headerRun _ c2] by (cases "orDefault (addHeaderMarkers options) True") auto
  obtain c4 where c4: "replaceLoop newlineRun (\<lambda>ns s. [10, 10]) c3 = Some c4"
    using replaceLoop_returns [of newlineRun _ c3] by auto
  show ?thesis
    unfolding preprocessText_def Let_def
    by (simp only: c1 c2 c3 c4 bind.bind_lunit) simp
qed

text \<open>
  Claim C4. Normalization is total: for every input string, the empty string and strings
  of white space alone included, and every setting of the options, \<^verbatim>\<open>preprocessText\<close>
  returns a string. No step of it throws, and each of its replacement loops comes to
  an end.
\<close>

theorem preprocessText_total:
  "\<exists>normalized. preprocessText rawText options = Some normalized"
  by (rule preprocessText_returns)

theorem preprocessText_total_witness:
  "(\<exists>normalized. preprocessText [] noOptions = Some normalized)
   \<and> (\<exists>normalized. preprocessText [32, 10, 9] noOptions = Some normalized)"
  using preprocessText_total [of "[]" noOptions] preprocessText_total [of "[32, 10, 9]" noOptions]
  by simp

text \<open>
  Claim C9. The option \<^verbatim>\<open>preserveOriginalStructure\<close> is accepted and changes nothing: for
  every input string and every setting of the other options, \<^verbatim>\<open>preprocessText\<close> returns
  the same string whatever the option is set to (true, false or not given), and it does
  return a string when the option is true.
\<close>

theorem preserveOriginalStructure_ignored:
  "preprocessText rawText (options\<lparr>preserveOriginalStructure := a\<rparr>)
     = preprocessText rawText (options\<lparr>preserveOriginalStructure := b\<rparr>)
   \<and> (\<exists>normalized.
        preprocessText rawText (options\<lparr>preserveOriginalStructure := Some True\<rparr>)
          = Some normalized)"
  using preprocessText_returns [of rawText "options\<lparr>preserveOriginalStructure := Some True\<rparr>"]
  by (simp add: preprocessText_def)

theorem preserveOriginalStructure_ignored_witness:
  "preprocessText (js ''A  B'') (noOptions\<lparr>preserveOriginalStructure := Some True\<rparr>)
     = preprocessText (js ''A  B'') (noOptions\<lparr>preserveOriginalStructure := Some False\<rparr>)"
  using preserveOriginalStructure_ignored
          [where rawText = "js ''A  B''" and options = noOptions and a = "Some True" and b = "Some False"]
  by simp

lemma splitChar_nonempty: "splitChar sep s \<noteq> []"
  by (induction s) (auto split: list.splits)

text \<open>
  Claim C2, as the code has it. For every pair of strings, \<^verbatim>\<open>compressionRatio\<close> is
  \<open>length processed / length original\<close> when the original text is not empty; when it is
  empty the division is by zero and gives \<^verbatim>\<open>NaN\<close> for an empty processed text and
  \<^verbatim>\<open>Infinity\<close> otherwise, not 0. The original line count is never 0 (splitting a
  string at line breaks gives at least one piece), so \<^verbatim>\<open>structureImprovement\<close> is
  always the quotient of the two line counts.
\<close>

theorem getPreprocessingStats_ratios:
  "compressionRatio (getPreprocessingStats originalText processedText)
     = (if length originalText > 0
        then Num (of_nat (length processedText) / of_nat (length originalText))
        else if length processedText = 0 then NaN else PosInfinity)
   \<and> originalLineCount (getPreprocessingStats originalText processedText) > 0
   \<and> structureImprovement (getPreprocessingStats originalText processedText)
       = Num (of_nat (processedLineCount (getPreprocessingStats originalText processedText))
              / of_nat (originalLineCount (getPreprocessingStats originalText processedText)))"
  using splitChar_nonempty [of 10 originalText]
  by (simp add: getPreprocessingStats_def js_divide_def Let_def)

theorem getPreprocessingStats_ratios_witness:
  "compressionRatio (getPreprocessingStats (js ''a  b'') (js ''a b'')) = Num (3 / 4)
   \<and> structureImprovement (getPreprocessingStats (js ''a  b'') (js ''a b'')) = Num 1
   \<and> compressionRatio (getPreprocessingStats [] (js ''a'')) = PosInfinity"
  using getPreprocessingStats_ratios [of "js ''a  b''" "js ''a b''"]
        getPreprocessingStats_ratios [of "[]" "js ''a''"]
  by (simp add: js_def getPreprocessingStats_def Let_def)

text \<open>
  Claim C2 as the specification states it fails for an empty original text: the
  compression ratio of two empty strings is \<^verbatim>\<open>NaN\<close>, not 0.
\<close>

theorem getPreprocessingStats_empty_original:
  "compressionRatio (getPreprocessingStats [] []) = NaN
   \<and> compressionRatio (getPreprocessingStats [] []) \<noteq> Num 0"
  by (simp add: getPreprocessingStats_def js_divide_def Let_def)

section \<open>Properties of the tokenization service\<close>

lemma trim_empty_iff: "trim s = [] \<longleftrightarrow> (\<forall>c\<in>set s. isSpace c)"
proof -
  have "trim s = [] \<longleftrightarrow> (\<forall>c\<in>set (dropWhile isSpace s). isSpace c)"
    by (simp add: trim_def dropWhile_eq_Nil_conv)
  also have "\<dots> \<longleftrightarrow> dropWhile isSpace s = []"
  proof
    assume all: "\<forall>c\<in>set (dropWhile isSpace s). isSpace c"
    show "dropWhile isSpace s = []"
    proof (rule ccontr)
      assume ne: "dropWhile isSpace s \<noteq> []"
      then have "\<not> isSpace (hd (dropWhile isSpace s))" by (rule hd_dropWhile)
      moreover from ne have "hd (dropWhile isSpace s) \<in> set (dropWhile isSpace s)" by simp
      ultimately show False using all by blast
    qed
  next
    assume "dropWhile isSpace s = []"
    then show "\<forall>c\<in>set (dropWhile isSpace s). isSpace c"
      by (metis empty_iff empty_set)
  qed
  also have "\<dots> \<longleftrightarrow> (\<forall>c\<in>set s. isSpace c)"
    by (simp add: dropWhile_eq_Nil_conv)
  finally show ?thesis .
qed

lemma trim_defaultFunctionUrl: "trim defaultFunctionUrl \<noteq> []"
  by (simp add: trim_empty_iff defaultFunctionUrl_def js_def isSpace_def)

lemma trim_placeholderUrl: "trim placeholderUrl \<noteq> []"
  by (simp add: trim_empty_iff placeholderUrl_def js_def isSpace_def)

lemma constructor_cases:
  "azureFunctionUrl (constructor env)
     = (case VITE_AZURE_TOKENIZER_URL env of
          None \<Rightarrow> defaultFunctionUrl
        | Some u \<Rightarrow> if u = [] \<or> u = placeholderUrl then defaultFunctionUrl else u)"
  using trim_defaultFunctionUrl
  by (auto simp: constructor_def orElse_def Let_def trim_def split: option.splits)

lemma tokenizeText_notConfigured_iff:
  "tokenizeText config net now input = ([], Inl (newError notConfiguredMessage))
     \<longleftrightarrow> trim (azureFunctionUrl config) = []"
  by (auto simp: tokenizeText_def Let_def trim_def split: prod.splits sum.splits)

lemma tokenizeText_updateConfig_iff:
  "tokenizeText (updateConfig config p) net now input = ([], Inl (newError notConfiguredMessage))
     \<longleftrightarrow> (case partAzureFunctionUrl p of
            Some u \<Rightarrow> trim u = []
          | None \<Rightarrow> trim (azureFunctionUrl config) = [])"
  by (simp add: tokenizeText_notConfigured_iff updateConfig_def orDefault_def split: option.splits)

text \<open>
  Claim C10, as the code has it. After construction the URL of the service is never the
  empty string: the built-in endpoint replaces a value of the environment that is absent,
  empty or the placeholder of the documentation. A value of white space alone is kept.
  \<^verbatim>\<open>tokenizeText\<close> takes the "not configured" branch exactly when the URL of the
  configuration is blank. So under the initial configuration it takes it exactly when the
  environment gives a non-empty string of white space; and after an \<^verbatim>\<open>updateConfig\<close> on a
  configuration whose URL is not blank (the initial one, unless the environment value was
  blank), it takes it exactly when the update carries a URL that is empty or blank,
  whatever the other keys of the update are.
\<close>

theorem constructor_url:
  "azureFunctionUrl (constructor env) \<noteq> []
   \<and> (VITE_AZURE_TOKENIZER_URL env \<in> {None, Some [], Some placeholderUrl}
        \<longrightarrow> azureFunctionUrl (constructor env) = defaultFunctionUrl)
   \<and> (tokenizeText (constructor env) net now input = ([], Inl (newError notConfiguredMessage))
        \<longleftrightarrow> (\<exists>u. VITE_AZURE_TOKENIZER_URL env = Some u \<and> u \<noteq> [] \<and> trim u = []))
   \<and> (trim u = []
        \<longrightarrow> tokenizeText
              (updateConfig config
                 \<lparr>partModelName = None, partAzureFunctionUrl = Some u, partApiKey = None\<rparr>)
              net now input
            = ([], Inl (newError notConfiguredMessage)))
   \<and> (tokenizeText config net now input = ([], Inl (newError notConfiguredMessage))
        \<longleftrightarrow> trim (azureFunctionUrl config) = [])
   \<and> (tokenizeText (updateConfig config p) net now input = ([], Inl (newError notConfiguredMessage))
        \<longleftrightarrow> (case partAzureFunctionUrl p of
               Some v \<Rightarrow> trim v = []
             | None \<Rightarrow> trim (azureFunctionUrl config) = []))
   \<and> (trim (azureFunctionUrl config) \<noteq> []
        \<longrightarrow> (tokenizeText (updateConfig config p) net now input
               = ([], Inl (newError notConfiguredMessage))
             \<longleftrightarrow> (\<exists>v. partAzureFunctionUrl p = Some v \<and> trim v = [])))
   \<and> (\<not> (\<exists>v. VITE_AZURE_TOKENIZER_URL env = Some v \<and> v \<noteq> [] \<and> trim v = [])
        \<longrightarrow> (tokenizeText (updateConfig (constructor env) p) net now input
               = ([], Inl (newError notConfiguredMessage))
             \<longleftrightarrow> (\<exists>v. partAzureFunctionUrl p = Some v \<and> trim v = [])))"
proof (intro conjI)
  show "azureFunctionUrl (constructor env) \<noteq> []"
    using trim_defaultFunctionUrl
    by (auto simp: constructor_cases trim_def split: option.splits)
  show "VITE_AZURE_TOKENIZER_URL env \<in> {None, Some [], Some placeholderUrl}
        \<longrightarrow> azureFunctionUrl (constructor env) = defaultFunctionUrl"
    by (auto simp: constructor_cases)
  show initial:
    "tokenizeText (constructor env) net now input = ([], Inl (newError notConfiguredMessage))
        \<longleftrightarrow> (\<exists>u. VITE_AZURE_TOKENIZER_URL env = Some u \<and> u \<noteq> [] \<and> trim u = [])"
    using trim_defaultFunctionUrl trim_placeholderUrl
    by (auto simp: tokenizeText_notConfigured_iff constructor_cases split: option.splits)
  show "trim u = []
        \<longrightarrow> tokenizeText
              (updateConfig config
                 \<lparr>partModelName = None, partAzureFunctionUrl = Some u, partApiKey = None\<rparr>)
              net now input
            = ([], Inl (newError notConfiguredMessage))"
    by (simp add: tokenizeText_updateConfig_iff)
  show "tokenizeText config net now input = ([], Inl (newError notConfiguredMessage))
        \<longleftrightarrow> trim (azureFunctionUrl config) = []"
    by (rule tokenizeText_notConfigured_iff)
  show "tokenizeText (updateConfig config p) net now input = ([], Inl (newError notConfiguredMessage))
        \<longleftrightarrow> (case partAzureFunctionUrl p of
               Some v \<Rightarrow> trim v = []
             | None \<Rightarrow> trim (azureFunctionUrl config) = [])"
    by (rule tokenizeText_updateConfig_iff)
  show "trim (azureFunctionUrl config) \<noteq> []
        \<longrightarrow> (tokenizeText (updateConfig config p) net now input
               = ([], Inl (newError notConfiguredMessage))
             \<longleftrightarrow> (\<exists>v. partAzureFunctionUrl p = Some v \<and> trim v = []))"
    by (auto simp: tokenizeText_updateConfig_iff split: option.splits)
  show "\<not> (\<exists>v. VITE_AZURE_TOKENIZER_URL env = Some v \<and> v \<noteq> [] \<and> trim v = [])
        \<longrightarrow> (tokenizeText (updateConfig (constructor env) p) net now input
               = ([], Inl (newError notConfiguredMessage))
             \<longleftrightarrow> (\<exists>v. partAzureFunctionUrl p = Some v \<and> trim v = []))"
  proof
    assume "\<not> (\<exists>v. VITE_AZURE_TOKENIZER_URL env = Some v \<and> v \<noteq> [] \<and> trim v = [])"
    with initial [of ] have "trim (azureFunctionUrl (constructor env)) \<noteq> []"
      by (simp add: tokenizeText_notConfigured_iff)
    then show "tokenizeText (updateConfig (constructor env) p) net now input
               = ([], Inl (newError notConfiguredMessage))
             \<longleftrightarrow> (\<exists>v. partAzureFunctionUrl p = Some v \<and> trim v = [])"
      by (auto simp: tokenizeText_updateConfig_iff split: option.splits)
  qed
qed

theorem constructor_url_witness:
  "azureFunctionUrl (constructor \<lparr>VITE_AZURE_TOKENIZER_URL = None, VITE_AZURE_TOKENIZER_KEY = None\<rparr>)
     = defaultFunctionUrl
   \<and> tokenizeText (constructor \<lparr>VITE_AZURE_TOKENIZER_URL = None, VITE_AZURE_TOKENIZER_KEY = None\<rparr>)
        (\<lambda>request. Inl OtherValue) 0 []
      \<noteq> ([], Inl (newError notConfiguredMessage))
   \<and> tokenizeText
        (updateConfig (constructor \<lparr>VITE_AZURE_TOKENIZER_URL = None, VITE_AZURE_TOKENIZER_KEY = None\<rparr>)
           \<lparr>partModelName = None, partAzureFunctionUrl = Some [], partApiKey = None\<rparr>)
        (\<lambda>request. Inl OtherValue) 0 []
      = ([], Inl (newError notConfiguredMessage))
   \<and> tokenizeText
        (updateConfig (constructor \<lparr>VITE_AZURE_TOKENIZER_URL = None, VITE_AZURE_TOKENIZER_KEY = None\<rparr>)
           \<lparr>partModelName = Some [], partAzureFunctionUrl = None, partApiKey = Some None\<rparr>)
        (\<lambda>request. Inl OtherValue) 0 []
      \<noteq> ([], Inl (newError notConfiguredMessage))"
  using constructor_url
          [where env = "\<lparr>VITE_AZURE_TOKENIZER_URL = None, VITE_AZURE_TOKENIZER_KEY = None\<rparr>"
             and net = "\<lambda>request. Inl OtherValue" and now = 0 and input = "[]" and u = "[]"
             and config = "constructor \<lparr>VITE_AZURE_TOKENIZER_URL = None, VITE_AZURE_TOKENIZER_KEY = None\<rparr>"
             and p = "\<lparr>partModelName = None, partAzureFunctionUrl = Some [], partApiKey = None\<rparr>"]
        constructor_url
          [where env = "\<lparr>VITE_AZURE_TOKENIZER_URL = None, VITE_AZURE_TOKENIZER_KEY = None\<rparr>"
             and net = "\<lambda>request. Inl OtherValue" and now = 0 and input = "[]" and u = "[]"
             and config = "constructor \<lparr>VITE_AZURE_TOKENIZER_URL = None, VITE_AZURE_TOKENIZER_KEY = None\<rparr>"
             and p = "\<lparr>partModelName = Some [], partAzureFunctionUrl = None, partApiKey = Some None\<rparr>"]
  by (simp add: trim_def)

text \<open>
  Claim C10 as stated fails: with a URL of one space in the environment, the first call
  of \<^verbatim>\<open>tokenizeText\<close> takes the "not configured" branch, without any \<^verbatim>\<open>updateConfig\<close>.
\<close>

theorem constructor_blank_url_notConfigured:
  "tokenizeText (constructor \<lparr>VITE_AZURE_TOKENIZER_URL = Some [32], VITE_AZURE_TOKENIZER_KEY = None\<rparr>)
     (\<lambda>request. Inl OtherValue) 0 []
   = ([], Inl (newError notConfiguredMessage))"
  by (simp add: tokenizeText_def constructor_def orElse_def Let_def placeholderUrl_def js_def
        trim_def isSpace_def)

lemma tokenizeCatch_invalidResponse:
  "tokenizeCatch (newError invalidResponseMessage) = newError invalidResponseMessage"
  by (simp add: tokenizeCatch_def newError_def invalidResponseMessage_def js_def)

lemma getProp_not_null:
  "result \<noteq> JNull \<Longrightarrow> \<exists>v. getProp result key = Inr v"
  by (cases result) (simp_all add: getProp_def)

lemma getProp_array_object:
  "getProp result key = Inr (Some v) \<Longrightarrow> \<exists>kvs. result = JObject kvs"
  by (cases result) (simp_all add: getProp_def)

lemma tokenizeResponse_invalid:
  assumes "ok response" and "resp_json response = Inr result" and "result \<noteq> JNull"
      and "\<forall>toks. getProp result (js ''tokens'') \<noteq> Inr (Some (JArray toks))"
  shows "snd (tokenizeResponse config now response) = Inl (newError invalidResponseMessage)"
proof -
  from getProp_not_null [OF assms(3)] obtain v where v: "getProp result (js ''tokens'') = Inr v"
    by blast
  with assms(4) have "\<forall>toks. v \<noteq> Some (JArray toks)" by simp
  then show ?thesis
    using assms(1,2) v
    by (auto simp: tokenizeResponse_def split: option.splits json.splits)
qed

lemma tokenizeResponse_valid:
  assumes "ok response" and "resp_json response = Inr result"
      and "getProp result (js ''tokens'') = Inr (Some (JArray toks))"
  shows "\<exists>d. snd (tokenizeResponse config now response) = Inr d
           \<and> tokens d = toks \<and> tokenCount d = length toks
           \<and> (\<exists>ids. getProp result (js ''token_ids'') = Inr ids \<and> tokenIds d = orJson ids (JArray []))"
proof -
  from getProp_array_object [OF assms(3)] obtain kvs where "result = JObject kvs" by blast
  then show ?thesis
    using assms
    by (simp add: tokenizeResponse_def getProp_def Let_def)
qed

lemma tokenizeText_response:
  assumes "trim (azureFunctionUrl config) \<noteq> []"
      and "net (tokenizeRequest config input) = Inr response"
  shows "snd (tokenizeText config net now input)
           = (case snd (tokenizeResponse config now response) of
                Inl e \<Rightarrow> Inl (tokenizeCatch e) | Inr d \<Rightarrow> Inr d)"
  using assms
  by (auto simp: tokenizeText_def Let_def trim_def split: prod.splits sum.splits)

text \<open>
  Claim C8, as the code has it. Take a response with a status from 200 to 299 whose body
  parses to a JSON value other than \<^verbatim>\<open>null\<close>. If its \<^verbatim>\<open>tokens\<close> property is not an array,
  \<^verbatim>\<open>tokenizeText\<close> fails with the error "Invalid response format: missing tokens array".
  Otherwise it returns a result whose \<^verbatim>\<open>tokens\<close> is that array and whose \<^verbatim>\<open>tokenCount\<close> is
  its length; \<^verbatim>\<open>tokenIds\<close> is the \<^verbatim>\<open>token_ids\<close> of the response when that is an array (or any
  other value that counts as true), and the empty array when \<^verbatim>\<open>token_ids\<close> is left out or
  is a value that counts as false.
\<close>

theorem tokenizeText_response_contract:
  assumes "trim (azureFunctionUrl config) \<noteq> []"
      and "net (tokenizeRequest config input) = Inr response"
      and "ok response"
      and "resp_json response = Inr result"
      and "result \<noteq> JNull"
  shows "((\<forall>toks. getProp result (js ''tokens'') \<noteq> Inr (Some (JArray toks)))
            \<longrightarrow> snd (tokenizeText config net now input) = Inl (newError invalidResponseMessage))
       \<and> (\<forall>toks. getProp result (js ''tokens'') = Inr (Some (JArray toks))
            \<longrightarrow> (\<exists>d. snd (tokenizeText config net now input) = Inr d
                   \<and> tokens d = toks
                   \<and> tokenCount d = length (tokens d)
                   \<and> (\<forall>ids. getProp result (js ''token_ids'') = Inr (Some (JArray ids))
                             \<longrightarrow> tokenIds d = JArray ids)
                   \<and> (getProp result (js ''token_ids'') = Inr None \<longrightarrow> tokenIds d = JArray [])
                   \<and> (\<forall>v. getProp result (js ''token_ids'') = Inr (Some v)
                           \<longrightarrow> tokenIds d = (if truthy (Some v) then v else JArray []))))"
proof (intro conjI allI impI)
  assume "\<forall>toks. getProp result (js ''tokens'') \<noteq> Inr (Some (JArray toks))"
  from tokenizeResponse_invalid [OF assms(3,4,5) this]
  show "snd (tokenizeText config net now input) = Inl (newError invalidResponseMessage)"
    by (simp add: tokenizeText_response [where net = net, OF assms(1,2)] tokenizeCatch_invalidResponse)
next
  fix toks
  assume "getProp result (js ''tokens'') = Inr (Some (JArray toks))"
  from tokenizeResponse_valid [OF assms(3,4) this, of config now]
  obtain d ids where d: "snd (tokenizeResponse config now response) = Inr d"
    "tokens d = toks" "tokenCount d = length toks"
    "getProp result (js ''token_ids'') = Inr ids" "tokenIds d = orJson ids (JArray [])"
    by blast
  from d(1) have "snd (tokenizeText config net now input) = Inr d"
    by (simp add: tokenizeText_response [where net = net, OF assms(1,2)])
  with d show "\<exists>d. snd (tokenizeText config net now input) = Inr d
                   \<and> tokens d = toks
                   \<and> tokenCount d = length (tokens d)
                   \<and> (\<forall>ids. getProp result (js ''token_ids'') = Inr (Some (JArray ids))
                             \<longrightarrow> tokenIds d = JArray ids)
                   \<and> (getProp result (js ''token_ids'') = Inr None \<longrightarrow> tokenIds d = JArray [])
                   \<and> (\<forall>v. getProp result (js ''token_ids'') = Inr (Some v)
                           \<longrightarrow> tokenIds d = (if truthy (Some v) then v else JArray []))"
    by (auto simp: orJson_def truthy_def)
qed


lemma trim_sampleUrl: "trim (azureFunctionUrl sampleConfig) \<noteq> []"
  by (simp add: trim_empty_iff sampleConfig_def js_def isSpace_def)

theorem tokenizeText_response_contract_witness:
  "snd (tokenizeText sampleConfig (\<lambda>request. Inr (okResponse noTokensBody)) 0 (js ''a''))
     = Inl (newError invalidResponseMessage)
   \<and> (\<exists>d. snd (tokenizeText sampleConfig (\<lambda>request. Inr (okResponse goodBody)) 0 (js ''a'')) = Inr d
          \<and> tokenCount d = 2 \<and> tokenIds d = JArray [JNumber 1, JNumber 2])"
proof -
  have ok: "ok (okResponse body)" for body
    by (simp add: ok_def okResponse_def)
  have body: "resp_json (okResponse body) = Inr body" for body
    by (simp add: okResponse_def)
  have none: "\<forall>toks. getProp noTokensBody (js ''tokens'') \<noteq> Inr (Some (JArray toks))"
    by (simp add: getProp_def noTokensBody_def js_def)
  have toks: "getProp goodBody (js ''tokens'') = Inr (Some (JArray [JString (js ''a''), JString (js ''b'')]))"
    by (simp add: getProp_def goodBody_def js_def)
  have ids: "getProp goodBody (js ''token_ids'') = Inr (Some (JArray [JNumber 1, JNumber 2]))"
    by (simp add: getProp_def goodBody_def js_def)
  from tokenizeText_response_contract
         [where net = "\<lambda>request. Inr (okResponse noTokensBody)" and now = 0 and input = "js ''a''",
          OF trim_sampleUrl refl ok body]
       none
  have first: "snd (tokenizeText sampleConfig (\<lambda>request. Inr (okResponse noTokensBody)) 0 (js ''a''))
     = Inl (newError invalidResponseMessage)"
    by (simp add: noTokensBody_def)
  from tokenizeText_response_contract
         [where net = "\<lambda>request. Inr (okResponse goodBody)" and now = 0 and input = "js ''a''",
          OF trim_sampleUrl refl ok body]
       toks ids
  have "\<exists>d. snd (tokenizeText sampleConfig (\<lambda>request. Inr (okResponse goodBody)) 0 (js ''a'')) = Inr d
          \<and> tokenCount d = 2 \<and> tokenIds d = JArray [JNumber 1, JNumber 2]"
    by (auto simp: goodBody_def)
  with first show ?thesis by blast
qed

text \<open>
  Claim C8 as stated fails on two responses with status 200. A body that is \<^verbatim>\<open>null\<close> has
  no tokens array, and the call fails with the \<^verbatim>\<open>TypeError\<close> of reading a property of
  \<^verbatim>\<open>null\<close>, not with the invalid-response error. A body whose \<^verbatim>\<open>token_ids\<close> is the
  number 0 gives the empty array for \<^verbatim>\<open>tokenIds\<close>, not the \<^verbatim>\<open>token_ids\<close> of the response.
\<close>

theorem tokenizeText_null_body:
  "snd (tokenizeText sampleConfig (\<lambda>request. Inr (okResponse JNull)) 0 (js ''a''))
     = Inl (nullPropertyError (js ''tokens''))
   \<and> snd (tokenizeText sampleConfig (\<lambda>request. Inr (okResponse JNull)) 0 (js ''a''))
     \<noteq> Inl (newError invalidResponseMessage)
   \<and> (\<exists>d. snd (tokenizeText sampleConfig (\<lambda>request. Inr (okResponse zeroIdsBody)) 0 (js ''a'')) = Inr d
          \<and> tokenIds d = JArray [] \<and> tokenIds d \<noteq> JNumber 0)"
proof -
  have catch: "tokenizeCatch (nullPropertyError (js ''tokens''))
      = nullPropertyError (js ''tokens'')"
    by (simp add: tokenizeCatch_def nullPropertyError_def js_def)
  have resp: "snd (tokenizeResponse sampleConfig 0 (okResponse JNull))
      = Inl (nullPropertyError (js ''tokens''))"
    by (simp add: tokenizeResponse_def okResponse_def ok_def getProp_def)
  have first: "snd (tokenizeText sampleConfig (\<lambda>request. Inr (okResponse JNull)) 0 (js ''a''))
     = Inl (nullPropertyError (js ''tokens''))"
    by (simp add: tokenizeText_response [where net = "\<lambda>request. Inr (okResponse JNull)", OF trim_sampleUrl refl]
          resp catch)
  have second: "nullPropertyError (js ''tokens'')
      \<noteq> newError invalidResponseMessage"
    by (simp add: newError_def nullPropertyError_def js_def)
  have "snd (tokenizeResponse sampleConfig 0 (okResponse zeroIdsBody))
      = Inr \<lparr>tokens = [JString (js ''a'')], tokenIds = JArray [], tokenCount = 1,
             modelName = JString (js ''gpt2''), tokenizedAt = 0\<rparr>"
    by (simp add: tokenizeResponse_def okResponse_def ok_def getProp_def zeroIdsBody_def js_def
          orJson_def truthy_def sampleConfig_def)
  then have third: "\<exists>d. snd (tokenizeText sampleConfig (\<lambda>request. Inr (okResponse zeroIdsBody)) 0 (js ''a'')) = Inr d
          \<and> tokenIds d = JArray [] \<and> tokenIds d \<noteq> JNumber 0"
    by (simp add: tokenizeText_response [where net = "\<lambda>request. Inr (okResponse zeroIdsBody)", OF trim_sampleUrl refl])
  from first second third show ?thesis by simp
qed

section \<open>Properties of file validation\<close>

text \<open>
  Claim C7, as the code has it. \<^verbatim>\<open>validateFile\<close> rejects a file, with an error message,
  exactly when its declared media type is not one of the four allowed types, or it is
  larger than 50MB, or it is empty. The legacy binary Word type \<^verbatim>\<open>application/msword\<close>
  is one of the allowed types: the validator lets such a file through, and it is
  \<^verbatim>\<open>extractText\<close> that rejects it.
\<close>

theorem validateFile_rejects:
  "(\<not> isValid (validateFile file)
      \<longleftrightarrow> file_type file \<notin> set ALLOWED_FILE_TYPES
          \<or> file_size file > MAX_FILE_SIZE \<or> file_size file = 0)
   \<and> (\<not> isValid (validateFile file) \<longrightarrow> validationError (validateFile file) \<noteq> None)
   \<and> js ''application/msword'' \<in> set ALLOWED_FILE_TYPES"
  by (simp add: validateFile_def Let_def ALLOWED_FILE_TYPES_def)

theorem validateFile_rejects_witness:
  "\<not> isValid (validateFile \<lparr>file_name = js ''a.exe'', file_type = js ''application/x-msdownload'',
                              file_size = 10, file_arrayBuffer = Inr [], file_text = Inr []\<rparr>)
   \<and> \<not> isValid (validateFile \<lparr>file_name = js ''a.pdf'', file_type = js ''application/pdf'',
                              file_size = 52428801, file_arrayBuffer = Inr [], file_text = Inr []\<rparr>)
   \<and> \<not> isValid (validateFile \<lparr>file_name = js ''a.txt'', file_type = js ''text/plain'',
                              file_size = 0, file_arrayBuffer = Inr [], file_text = Inr []\<rparr>)"
  using validateFile_rejects
          [of "\<lparr>file_name = js ''a.exe'', file_type = js ''application/x-msdownload'',
                file_size = 10, file_arrayBuffer = Inr [], file_text = Inr []\<rparr>"]
        validateFile_rejects
          [of "\<lparr>file_name = js ''a.pdf'', file_type = js ''application/pdf'',
                file_size = 52428801, file_arrayBuffer = Inr [], file_text = Inr []\<rparr>"]
        validateFile_rejects
          [of "\<lparr>file_name = js ''a.txt'', file_type = js ''text/plain'',
                file_size = 0, file_arrayBuffer = Inr [], file_text = Inr []\<rparr>"]
  by (simp add: ALLOWED_FILE_TYPES_def MAX_FILE_SIZE_def js_def)

text \<open>
  Claim C7 as stated fails: a file of one byte declared as \<^verbatim>\<open>application/msword\<close>
  is valid for \<^verbatim>\<open>validateFile\<close>.
\<close>

theorem validateFile_accepts_msword:
  "isValid (validateFile docFile)"
  by (simp add: validateFile_def docFile_def ALLOWED_FILE_TYPES_def MAX_FILE_SIZE_def js_def)

section \<open>Properties of the extractor\<close>

lemma msword_dispatch:
  "file_type file = js ''application/msword'' \<Longrightarrow>
   extractByType env file
     = ([], Inl (newError (js ''Legacy .doc files are not supported. Please convert to .docx format.'')))"
  by (simp add: extractByType_def js_def)

text \<open>
  Claim C5. For a file declared as \<^verbatim>\<open>application/msword\<close>, \<^verbatim>\<open>extractText\<close> fails with the
  error whose message tells the user to convert the file to .docx. Its only events are
  the first progress status and the error status: the file is never read, and no
  library is called on it.
\<close>

theorem legacy_doc_rejected:
  assumes "file_type file = js ''application/msword''"
  shows "\<exists>events.
           extractText env config clock file
             = Some (events,
                     Inl (newError (js ''Legacy .doc files are not supported. Please convert to .docx format.'')))
           \<and> events
               = [extracting file 5 (js ''Starting text extraction...''),
                  Status \<lparr>statusId = file_name file, status = Failed, progress = 0,
                          message = js ''Extraction failed'',
                          error = Some (js ''Legacy .doc files are not supported. Please convert to .docx format.'')\<rparr>]
           \<and> ReadArrayBuffer \<notin> set events \<and> ReadText \<notin> set events
           \<and> GetDocument \<notin> set events \<and> ImportMammoth \<notin> set events
           \<and> ExtractRawText \<notin> set events"
  by (simp add: extractText_def msword_dispatch [OF assms] messageOr_def newError_def
        extracting_def)

theorem legacy_doc_rejected_witness:
  "\<exists>events.
     extractText offlineEnv sampleConfig sampleClock docFile
       = Some (events,
               Inl (newError (js ''Legacy .doc files are not supported. Please convert to .docx format.'')))
     \<and> ReadArrayBuffer \<notin> set events \<and> ReadText \<notin> set events"
proof -
  have "file_type docFile = js ''application/msword''"
    by (simp add: docFile_def)
  from legacy_doc_rejected [OF this, of offlineEnv sampleConfig sampleClock]
  show ?thesis by blast
qed









lemma extractText_tokenizer_fails:
  assumes "extractByType env src = (evs, Inr extracted)"
      and "preprocessText extracted noOptions = Some normalized"
      and "tokenizeText config (fetch env) (tokenizedAtTime clock) normalized = (tokEvents, Inl tokenError)"
  shows "\<exists>events doc final.
           extractText env config clock src = Some (events, Inr doc)
           \<and> tokenizedData doc = None
           \<and> extractedText doc = extracted \<and> preprocessedText doc = normalized
           \<and> last events = Status final \<and> status final = Completed \<and> progress final = 100
           \<and> extracting src 99 (js ''Tokenization unavailable, finalizing extraction...'') \<in> set events"
  using assms by (simp add: extractText_def Let_def)

lemma tokenizeText_fetch_fails:
  assumes "trim (azureFunctionUrl config) \<noteq> []"
      and "net (tokenizeRequest config input) = Inl e"
  shows "\<exists>tokEvents. tokenizeText config net now input = (tokEvents, Inl (tokenizeCatch e))"
  using assms by (auto simp: tokenizeText_def Let_def trim_def)

lemma preprocess_sample: "preprocessText (js ''A  B'') noOptions = Some (js ''A B'')"
  by (simp add: preprocessText_def noOptions_def orDefault_def replaceLoop.simps js_def maxRun_def
        isSpace_def isUpper_def isUpperOrSpace_def whitespaceRun_def fieldLabel_def headerRun_def
        newlineRun_def trim_def group_def)

lemma extractByType_textFile:
  "extractByType offlineEnv textFile
     = ([extracting textFile 50 (js ''Reading text file...''), ReadText], Inr (js ''A  B''))"
  by (simp add: extractByType_def extractFromText_def textFile_def js_def)




section \<open>Properties of the batch\<close>

lemma processLoop_step:
  assumes "processLoop extract docs (uploadedFile # rest) st = Some st'"
  shows "\<exists>st1. processLoop extract docs rest st1 = Some st'
           \<and> set (newDocuments st) \<subseteq> set (newDocuments st1)
           \<and> (\<forall>found. alreadyProcessed docs uploadedFile = Some found
                  \<longrightarrow> found \<in> set (newDocuments st1))
           \<and> extractCalls st1
               = extractCalls st
                 @ (if alreadyProcessed docs uploadedFile = None then [uf_file uploadedFile] else [])"
proof (cases "alreadyProcessed docs uploadedFile")
  case (Some found)
  let ?st1 = "st\<lparr>newDocuments := newDocuments st @ [found]\<rparr>"
  from assms Some have "processLoop extract docs rest ?st1 = Some st'" by simp
  with Some show ?thesis by (intro exI [of _ ?st1]) auto
next
  case None
  with assms obtain evs r where
    call: "extract (length (extractCalls st)) (uf_file uploadedFile) = Some (evs, r)"
    by (auto split: option.splits)
  let ?called = "st\<lparr>extractCalls := extractCalls st @ [uf_file uploadedFile],
                     statuses := fold updateProcessingStatus (statusesOf evs) (statuses st)\<rparr>"
  show ?thesis
  proof (cases r)
    case (Inr extractedDoc)
    let ?st1 = "?called\<lparr>newDocuments := newDocuments ?called @ [extractedDoc]\<rparr>"
    from assms None call Inr have "processLoop extract docs rest ?st1 = Some st'"
      by (simp add: Let_def)
    with None show ?thesis by (intro exI [of _ ?st1]) auto
  next
    case (Inl e)
    let ?st1 = "?called\<lparr>statuses :=
                 updateProcessingStatus
                   \<lparr>statusId = uf_name uploadedFile, status = Failed, progress = 0,
                    message = js ''Processing failed'',
                    error = Some (messageOr e (js ''Unknown error''))\<rparr>
                   (statuses ?called)\<rparr>"
    from assms None call Inl have "processLoop extract docs rest ?st1 = Some st'"
      by (simp add: Let_def)
    with None show ?thesis by (intro exI [of _ ?st1]) auto
  qed
qed

lemma processLoop_calls:
  "processLoop extract docs files st = Some st' \<Longrightarrow>
   extractCalls st'
     = extractCalls st @ map uf_file (filter (\<lambda>uf. alreadyProcessed docs uf = None) files)"
proof (induction files arbitrary: st)
  case Nil
  then show ?case by simp
next
  case (Cons uploadedFile rest)
  from processLoop_step [OF Cons.prems] obtain st1 where
    "processLoop extract docs rest st1 = Some st'"
    "extractCalls st1
       = extractCalls st
         @ (if alreadyProcessed docs uploadedFile = None then [uf_file uploadedFile] else [])"
    by blast
  with Cons.IH [of st1] show ?case by simp
qed

lemma processLoop_keeps:
  "processLoop extract docs files st = Some st' \<Longrightarrow> set (newDocuments st) \<subseteq> set (newDocuments st')"
proof (induction files arbitrary: st)
  case Nil
  then show ?case by simp
next
  case (Cons uploadedFile rest)
  from processLoop_step [OF Cons.prems] obtain st1 where
    "processLoop extract docs rest st1 = Some st'"
    "set (newDocuments st) \<subseteq> set (newDocuments st1)"
    by blast
  with Cons.IH [of st1] show ?case by blast
qed

lemma processLoop_reuses:
  "processLoop extract docs files st = Some st' \<Longrightarrow> uploadedFile \<in> set files \<Longrightarrow>
   alreadyProcessed docs uploadedFile = Some doc \<Longrightarrow> doc \<in> set (newDocuments st')"
proof (induction files arbitrary: st)
  case Nil
  then show ?case by simp
next
  case (Cons first rest)
  from processLoop_step [OF Cons.prems(1)] obtain st1 where
    step: "processLoop extract docs rest st1 = Some st'"
    and here: "\<forall>found. alreadyProcessed docs first = Some found \<longrightarrow> found \<in> set (newDocuments st1)"
    by blast
  show ?case
  proof (cases "uploadedFile = first")
    case True
    with Cons.prems(3) here have "doc \<in> set (newDocuments st1)" by simp
    with processLoop_keeps [OF step] show ?thesis by blast
  next
    case False
    with Cons.prems(2) have "uploadedFile \<in> set rest" by simp
    from Cons.IH [OF step this Cons.prems(3)] show ?thesis .
  qed
qed

lemma extractText_returns: "\<exists>r. extractText env config clock src = Some r"
proof -
  obtain evs r where dispatch: "extractByType env src = (evs, r)"
    by (cases "extractByType env src")
  show ?thesis
  proof (cases r)
    case (Inl e)
    with dispatch show ?thesis by (simp add: extractText_def)
  next
    case (Inr extracted)
    obtain normalized where "preprocessText extracted noOptions = Some normalized"
      using preprocessText_returns by blast
    with dispatch Inr show ?thesis
      by (simp add: extractText_def Let_def split: prod.splits)
  qed
qed

lemma processLoop_returns:
  assumes "\<forall>k f. extract k f \<noteq> None"
  shows "\<exists>st'. processLoop extract docs files st = Some st'"
proof (induction files arbitrary: st)
  case Nil
  show ?case by simp
next
  case (Cons uploadedFile rest)
  show ?case
  proof (cases "alreadyProcessed docs uploadedFile")
    case (Some found)
    with Cons.IH [of "st\<lparr>newDocuments := newDocuments st @ [found]\<rparr>"]
    show ?thesis by simp
  next
    case None
    from assms obtain evs r where
      call: "extract (length (extractCalls st)) (uf_file uploadedFile) = Some (evs, r)"
      by (metis not_None_eq surj_pair)
    let ?called = "st\<lparr>extractCalls := extractCalls st @ [uf_file uploadedFile],
                       statuses := fold updateProcessingStatus (statusesOf evs) (statuses st)\<rparr>"
    show ?thesis
    proof (cases r)
      case (Inr extractedDoc)
      with None call
           Cons.IH [of "?called\<lparr>newDocuments := newDocuments ?called @ [extractedDoc]\<rparr>"]
      show ?thesis by (simp add: Let_def)
    next
      case (Inl e)
      with None call
           Cons.IH [of "?called\<lparr>statuses :=
                 updateProcessingStatus
                   \<lparr>statusId = uf_name uploadedFile, status = Failed, progress = 0,
                    message = js ''Processing failed'',
                    error = Some (messageOr e (js ''Unknown error''))\<rparr>
                   (statuses ?called)\<rparr>"]
      show ?thesis by (simp add: Let_def)
    qed
  qed
qed

lemma processDocuments_returns:
  assumes "\<forall>k f. extract k f \<noteq> None"
  shows "\<exists>app' calls. processDocuments extract app files = Some (app', calls)"
proof -
  obtain st where
    "processLoop extract (extractedDocuments app) files
       \<lparr>newDocuments = [], statuses = processingStatuses app, extractCalls = []\<rparr> = Some st"
    using processLoop_returns [OF assms] by blast
  then show ?thesis by (simp add: processDocuments_def)
qed

lemma processDocuments_result:
  assumes "processDocuments extract app files = Some (app', calls)"
  shows "calls = map uf_file (filter (\<lambda>uf. alreadyProcessed (extractedDocuments app) uf = None) files)
       \<and> (\<forall>uf\<in>set files. \<forall>doc.
             alreadyProcessed (extractedDocuments app) uf = Some doc
               \<longrightarrow> doc \<in> set (extractedDocuments app'))"
proof (cases "length files = 0")
  case True
  with assms show ?thesis by (simp add: processDocuments_def)
next
  case False
  with assms obtain st where
    loop: "processLoop extract (extractedDocuments app) files
             \<lparr>newDocuments = [], statuses = processingStatuses app, extractCalls = []\<rparr> = Some st"
    and calls: "calls = extractCalls st"
    and docs: "extractedDocuments app' = newDocuments st"
    by (auto simp: processDocuments_def split: option.splits)
  from processLoop_calls [OF loop] calls
  have "calls = map uf_file (filter (\<lambda>uf. alreadyProcessed (extractedDocuments app) uf = None) files)"
    by simp
  moreover from processLoop_reuses [OF loop] docs
  have "\<forall>uf\<in>set files. \<forall>doc.
             alreadyProcessed (extractedDocuments app) uf = Some doc
               \<longrightarrow> doc \<in> set (extractedDocuments app')"
    by simp
  ultimately show ?thesis by simp
qed

text \<open>
  Claim C3, as the code has it. The documents that a batch reuses are those of the
  \<^verbatim>\<open>extractedDocuments\<close> that the component held when the batch started, that is the
  results of the batch before. Whenever every call of the extractor returns (as
  \<^verbatim>\<open>extractText\<close> does), \<^verbatim>\<open>processDocuments\<close> returns; \<^verbatim>\<open>extractText\<close> has then been called on
  exactly the files of the batch that have no document of the same name and type in that
  earlier list, in order and once for each occurrence; and for every file that has one,
  the earlier document itself is among the new \<^verbatim>\<open>extractedDocuments\<close>.
\<close>

theorem processDocuments_reuse:
  assumes "\<forall>k f. extract k f \<noteq> None"
  shows "\<exists>app' calls.
           processDocuments extract app files = Some (app', calls)
           \<and> calls = map uf_file
                       (filter (\<lambda>uf. alreadyProcessed (extractedDocuments app) uf = None) files)
           \<and> (\<forall>uf\<in>set files. \<forall>doc.
                 alreadyProcessed (extractedDocuments app) uf = Some doc
                   \<longrightarrow> doc \<in> set (extractedDocuments app'))"
proof -
  from processDocuments_returns [OF assms] obtain app' calls where
    run: "processDocuments extract app files = Some (app', calls)"
    by blast
  from processDocuments_result [OF run] run show ?thesis by blast
qed


lemma extractText_textFile:
  "\<exists>events doc. extractText offlineEnv sampleConfig sampleClock textFile = Some (events, Inr doc)"
proof -
  have "fetch offlineEnv (tokenizeRequest sampleConfig (js ''A B''))
          = Inl (ErrorObj (js ''TypeError'') (js ''Failed to fetch''))"
    by (simp add: offlineEnv_def)
  from tokenizeText_fetch_fails
         [where net = "fetch offlineEnv" and now = "tokenizedAtTime sampleClock",
          OF trim_sampleUrl this]
  obtain tokEvents where
    "tokenizeText sampleConfig (fetch offlineEnv) (tokenizedAtTime sampleClock) (js ''A B'')
       = (tokEvents, Inl (tokenizeCatch (ErrorObj (js ''TypeError'') (js ''Failed to fetch''))))"
    by blast
  from extractText_tokenizer_fails [OF extractByType_textFile preprocess_sample this]
  show ?thesis by blast
qed

lemma alreadyProcessed_samples:
  "alreadyProcessed [earlierDocument] textUpload = Some earlierDocument"
  "alreadyProcessed [earlierDocument] docUpload = None"
  "alreadyProcessed [] textUpload = None"
  by (simp_all add: alreadyProcessed_def earlierDocument_def textUpload_def docUpload_def js_def)

lemma upload_files:
  "uf_file textUpload = textFile" "uf_file docUpload = docFile"
  by (simp_all add: textUpload_def docUpload_def)

theorem processDocuments_reuse_witness:
  "\<exists>app'. processDocuments sampleExtract earlierApp [textUpload, docUpload] = Some (app', [docFile])
          \<and> earlierDocument \<in> set (extractedDocuments app')"
proof -
  have total: "\<forall>k f. sampleExtract k f \<noteq> None"
    using extractText_returns by (auto simp: sampleExtract_def)
  have docs: "extractedDocuments earlierApp = [earlierDocument]"
    by (simp add: earlierApp_def emptyApp_def)
  from processDocuments_reuse [OF total, of earlierApp "[textUpload, docUpload]"]
  obtain app' calls where
    "processDocuments sampleExtract earlierApp [textUpload, docUpload] = Some (app', calls)"
    "calls = [docFile]" "earlierDocument \<in> set (extractedDocuments app')"
    by (auto simp: docs alreadyProcessed_samples upload_files)
  then show ?thesis by blast
qed

text \<open>
  Claim C3 as stated fails: in a batch of two uploads of the same name and type, with no
  earlier document, \<^verbatim>\<open>extractText\<close> is called on the file twice.
\<close>

theorem processDocuments_duplicate_in_batch:
  "\<exists>app'. processDocuments sampleExtract emptyApp [textUpload, textUpload]
           = Some (app', [textFile, textFile])"
proof -
  obtain events doc where
    "extractText offlineEnv sampleConfig sampleClock textFile = Some (events, Inr doc)"
    using extractText_textFile by blast
  then show ?thesis
    by (simp add: processDocuments_def emptyApp_def alreadyProcessed_samples
          sampleExtract_def upload_files)
qed

end
